theory Spec2Isabelle
  imports Main "HOL-Library.Word"
begin

section \<open>The Go run time: panics, slices, big integers\<close>

text \<open>
  The order-validation code returns either a Go
  \<^verbatim>\<open>error\<close> value or, where the source divides, indexes or re-slices without a check,
  stops in a run-time panic. A panic is not an error value of the function: it unwinds the
  callers. Both ends are values of the model.
\<close>

type_synonym byte = "8 word"

datatype panic = division_by_zero | slice_bounds_out_of_range | index_out_of_range

datatype 'a outcome = Panic panic | Return 'a

text \<open>Sequencing of two calls: a panic of the first one is the panic of the whole.\<close>

fun and_then :: "'a outcome \<Rightarrow> ('a \<Rightarrow> 'b outcome) \<Rightarrow> 'b outcome" where
  "and_then (Panic p) f = Panic p"
| "and_then (Return x) f = f x"

subsection \<open>Byte slices\<close>

text \<open>
  A Go slice is a window on a backing array: \<open>elems\<close> are the \<^verbatim>\<open>len\<close> bytes the slice
  shows, \<open>spare\<close> the bytes of the backing array behind them, up to the capacity. The
  slice expression \<^verbatim>\<open>s[:n]\<close> is bounded by the capacity, not by the length (Go
  specification, Slice expressions: ``for slices, the upper index bound is the slice
  capacity \<^verbatim>\<open>cap(a)\<close> rather than the length''); beyond the capacity it panics.
  An index expression \<^verbatim>\<open>s[i]\<close> is bounded by the length.

  The byte-slice fields of the records below hold what \<^verbatim>\<open>common.FromHex\<close> returns for
  the hexadecimal text of the field. \<^verbatim>\<open>common.FromHex\<close> and \<^verbatim>\<open>hex.DecodeString\<close>
  behind it are library code: a \<^verbatim>\<open>hex.DecodeString\<close> that allocates its result at the
  decoded length returns a slice whose capacity is its length, with no spare bytes, and
  \<open>full_slice\<close> below is that slice. (A \<^verbatim>\<open>hex.DecodeString\<close> that decodes in place, in
  the byte array made from the digits, leaves spare bytes behind.)
\<close>

record slice =
  elems :: "byte list"
  spare :: "byte list"

definition full_slice :: "byte list \<Rightarrow> slice" where
  \<comment> \<open>the slice of capacity \<open>length bs\<close> that shows the decoded bytes \<open>bs\<close>\<close>
  "full_slice bs = \<lparr>elems = bs, spare = []\<rparr>"

definition len :: "slice \<Rightarrow> nat" where
  "len s = length (elems s)"

definition cap :: "slice \<Rightarrow> nat" where
  "cap s = length (elems s) + length (spare s)"

definition slice_to :: "slice \<Rightarrow> nat \<Rightarrow> slice outcome" where
  \<comment> \<open>\<^verbatim>\<open>s[:n]\<close>\<close>
  "slice_to s n =
     (if cap s < n then Panic slice_bounds_out_of_range
      else Return \<lparr>elems = take n (elems s @ spare s), spare = drop n (elems s @ spare s)\<rparr>)"

definition bytes_Equal :: "slice \<Rightarrow> byte list \<Rightarrow> bool" where
  \<comment> \<open>\<^verbatim>\<open>bytes.Equal\<close>: same length and same bytes\<close>
  "bytes_Equal a b = (elems a = b)"

subsection \<open>go-ethereum \<^verbatim>\<open>common\<close>\<close>

definition HashLength :: nat where
  \<comment> \<open>\<^verbatim>\<open>common.HashLength\<close>, the length of a \<^verbatim>\<open>common.Hash\<close>\<close>
  "HashLength = 32"

definition Hash_zero_Bytes :: "byte list" where
  \<comment> \<open>\<^verbatim>\<open>common.Hash{}.Bytes()\<close>\<close>
  "Hash_zero_Bytes = replicate HashLength 0"

definition BytesToHash :: "slice \<Rightarrow> byte list" where
  \<comment> \<open>\<^verbatim>\<open>common.BytesToHash\<close>: keeps the last \<^verbatim>\<open>HashLength\<close> bytes of a longer input and
      copies a shorter one to the right end of a zeroed hash\<close>
  "BytesToHash b =
     (let b' = (if HashLength < len b then drop (len b - HashLength) (elems b) else elems b)
      in replicate (HashLength - length b') 0 @ b')"

subsection \<open>\<^verbatim>\<open>math/big\<close>\<close>

text \<open>
  A \<^verbatim>\<open>*big.Int\<close> is an \<^typ>\<open>int\<close>. \<^verbatim>\<open>QuoRem\<close> is Go's truncated division (the quotient
  is rounded toward zero, the remainder has the sign of the dividend). \<^verbatim>\<open>Div\<close> is
  built on it as in \<^verbatim>\<open>math/big/int.go\<close>: it is Euclidean division, whose remainder is
  never negative, and it panics on a zero divisor.
\<close>

definition Int_QuoRem :: "int \<Rightarrow> int \<Rightarrow> int \<times> int" where
  "Int_QuoRem x y = (let q = sgn x * sgn y * (\<bar>x\<bar> div \<bar>y\<bar>) in (q, x - y * q))"

definition Int_Quo :: "int \<Rightarrow> int \<Rightarrow> int" where
  "Int_Quo x y = fst (Int_QuoRem x y)"

definition Int_Div :: "int \<Rightarrow> int \<Rightarrow> int outcome" where
  "Int_Div x y =
     (if y = 0 then Panic division_by_zero
      else let (q, r) = Int_QuoRem x y
           in if r < 0 then (if y < 0 then Return (q + 1) else Return (q - 1))
              else Return q)"

text \<open>
  The Euclidean quotient written with HOL's \<open>div\<close>, which rounds toward minus infinity;
  the theorems below compare \<^verbatim>\<open>Div\<close> with it.
\<close>

definition euclid_quotient :: "int \<Rightarrow> int \<Rightarrow> int" where
  "euclid_quotient n d = (if 0 < d then n div d else - (n div (- d)))"

definition Int_SetBytes :: "byte list \<Rightarrow> int" where
  \<comment> \<open>\<^verbatim>\<open>SetBytes\<close>: the bytes as a big-endian unsigned integer\<close>
  "Int_SetBytes bs = foldl (\<lambda>acc b. acc * 256 + uint b) 0 bs"

definition Int_Uint64 :: "int \<Rightarrow> 64 word" where
  \<comment> \<open>\<^verbatim>\<open>Uint64\<close> returns \<^verbatim>\<open>low64(x.abs)\<close>: the low 64 bits of the magnitude\<close>
  "Int_Uint64 x = word_of_int \<bar>x\<bar>"

fun nat_String :: "nat \<Rightarrow> string" where
  "nat_String n =
     (if n < 10 then [''0123456789'' ! n]
      else nat_String (n div 10) @ [''0123456789'' ! (n mod 10)])"

definition Int_String :: "int \<Rightarrow> string" where
  \<comment> \<open>\<^verbatim>\<open>String\<close>: the decimal text, with a leading minus sign for a negative value\<close>
  "Int_String x = (if x < 0 then CHR ''-'' # nat_String (nat (- x)) else nat_String (nat x))"

section \<open>Orders and markets\<close>

text \<open>
  The amount fields of an order and of a market are decimal texts of type \<^verbatim>\<open>BigNum\<close>;
  every use in the functions below is \<^verbatim>\<open>BigNum(field).Int()\<close>. The records hold the
  integers these calls yield. The asset-data fields hold the slices that
  \<^verbatim>\<open>common.FromHex\<close> yields. Only the fields that the functions read are kept.
\<close>

record BaseOrder =
  MakerAssetAmount :: int
  TakerAssetAmount :: int
  MakerFee :: int
  ExpirationTimeSeconds :: int
  MakerAssetData :: slice
  TakerAssetData :: slice
  MakerFeeAssetData :: slice

record Order =
  GetOrder :: BaseOrder
  OrderType :: "64 word"
  IndexPriceRequirement :: string

record DerivativeMarket =
  InitialMarginRatio :: int
  IndexPrice :: int

text \<open>
  The errors that \<^verbatim>\<open>DoesValidationPass\<close> returns. The three returns of
  \<^verbatim>\<open>ErrOverLeveragedOrder\<close> differ in the text they wrap; the constructor's argument
  says which return it was.
\<close>

datatype leverage_check =
    MarginBelowContractPriceRequirement
  | IndexPriceBelowRequirement
  | IndexPriceAboveRequirement

datatype error =
    ErrUnrecognizedOrderType
  | ErrOrderExpired
  | ErrOverLeveragedOrder leverage_check

section \<open>The margin functions\<close>

definition ScalePermyriad :: "int \<Rightarrow> int \<Rightarrow> int outcome" where
  "ScalePermyriad amount permyriad =
     (let PERMYRIAD_BASE = 10000;
          scaleFactor = amount * permyriad
      in Int_Div scaleFactor PERMYRIAD_BASE)"

definition IncrementByScaledPermyriad :: "int \<Rightarrow> int \<Rightarrow> int outcome" where
  "IncrementByScaledPermyriad amount permyriad =
     and_then (ScalePermyriad amount permyriad) (\<lambda>s. Return (amount + s))"

definition ComputeIndexPriceMarginRequirement ::
    "bool \<Rightarrow> DerivativeMarket \<Rightarrow> Order \<Rightarrow> (int \<times> Order) outcome" where
  "ComputeIndexPriceMarginRequirement isLong market order =
     (let price = MakerAssetAmount (GetOrder order);
          quantity = TakerAssetAmount (GetOrder order);
          margin = MakerFee (GetOrder order);
          pq = price * quantity
      in and_then (ScalePermyriad quantity (InitialMarginRatio market)) (\<lambda>alphaQuantity.
         let num = (if isLong then margin - pq else margin + pq);
             denom = (if isLong then alphaQuantity - quantity else alphaQuantity + quantity)
         in and_then (Int_Div num denom) (\<lambda>indexPriceReq.
            Return (indexPriceReq,
                    order\<lparr>IndexPriceRequirement := Int_String indexPriceReq\<rparr>))))"

definition ComputeContractPriceMarginRequirement ::
    "DerivativeMarket \<Rightarrow> Order \<Rightarrow> int outcome" where
  "ComputeContractPriceMarginRequirement market order =
     (let price = MakerAssetAmount (GetOrder order);
          quantity = TakerAssetAmount (GetOrder order)
      in and_then (ScalePermyriad quantity (InitialMarginRatio market)) (\<lambda>alphaQuantity.
         Return (alphaQuantity * price)))"

definition ComputeOrderMarginHold :: "int \<Rightarrow> int \<Rightarrow> Order \<Rightarrow> int outcome" where
  "ComputeOrderMarginHold remainingQuantity makerTxFeePermyriad order =
     (let margin = MakerFee (GetOrder order)
      in and_then (IncrementByScaledPermyriad margin makerTxFeePermyriad) (\<lambda>scaledMargin.
         let originalQuantity = TakerAssetAmount (GetOrder order);
             numerator = scaledMargin * remainingQuantity
         in Int_Div numerator originalQuantity))"

section \<open>Order type, direction and market\<close>

definition ComputeAndSetOrderType :: "Order \<Rightarrow> (error option \<times> Order) outcome" where
  "ComputeAndSetOrderType order =
     and_then (slice_to (MakerFeeAssetData (GetOrder order)) HashLength) (\<lambda>prefix.
       let orderTypeNumber = Int_Uint64 (Int_SetBytes (elems prefix))
       in if orderTypeNumber \<noteq> 0 \<and> orderTypeNumber \<noteq> 5
          then Return (Some ErrUnrecognizedOrderType, order)
          else Return (None, order\<lparr>OrderType := orderTypeNumber\<rparr>))"

text \<open>
  \<^verbatim>\<open>GetDirectionMarketAndSubaccountID\<close> returns the direction, the market hash and the
  subaccount hash. The subaccount hash is a Keccak-256 digest computed from two other
  fields after the first two results are fixed; the model returns the first two.
\<close>

definition GetDirectionMarketAndSubaccountID :: "BaseOrder \<Rightarrow> (bool \<times> byte list) outcome" where
  "GetDirectionMarketAndSubaccountID m =
     and_then (if HashLength < len (MakerAssetData m)
               then slice_to (MakerAssetData m) HashLength
               else Return (MakerAssetData m)) (\<lambda>mData.
     and_then (if HashLength < len (TakerAssetData m)
               then slice_to (TakerAssetData m) HashLength
               else Return (TakerAssetData m)) (\<lambda>tData.
       if bytes_Equal tData Hash_zero_Bytes
       then Return (True, BytesToHash mData)
       else Return (False, BytesToHash tData)))"

section \<open>The validation pipeline\<close>

text \<open>
  \<^verbatim>\<open>currBlockTime\<close> is given by its \<^verbatim>\<open>Unix()\<close> value, a signed 64-bit number of
  seconds. The order is passed by pointer and written in place; the model returns it.
\<close>

definition DoesValidationPass ::
    "bool \<Rightarrow> DerivativeMarket \<Rightarrow> 64 word \<Rightarrow> Order \<Rightarrow> (error option \<times> Order) outcome" where
  "DoesValidationPass isLong market currBlockTime order0 =
     and_then (ComputeAndSetOrderType order0) (\<lambda>(err, order).
       if err \<noteq> None then Return (err, order)
       else
         let orderExpirationTime = ExpirationTimeSeconds (GetOrder order);
             blockTime = sint currBlockTime
         in if orderExpirationTime \<le> blockTime then Return (Some ErrOrderExpired, order)
            else
              let margin = MakerFee (GetOrder order)
              in and_then (ComputeContractPriceMarginRequirement market order)
                   (\<lambda>contractPriceMarginRequirement.
                 if margin < contractPriceMarginRequirement
                 then Return (Some (ErrOverLeveragedOrder MarginBelowContractPriceRequirement),
                              order)
                 else
                   and_then (ComputeIndexPriceMarginRequirement isLong market order)
                     (\<lambda>(indexPriceMarginRequirement, order').
                   let indexPrice = IndexPrice market
                   in if isLong \<and> indexPrice < indexPriceMarginRequirement
                      then Return (Some (ErrOverLeveragedOrder IndexPriceBelowRequirement),
                                   order')
                      else if \<not> isLong \<and> indexPrice > indexPriceMarginRequirement
                      then Return (Some (ErrOverLeveragedOrder IndexPriceAboveRequirement),
                                   order')
                      else Return (None, order'))))"

section \<open>Signature format\<close>

text \<open>
  The values of the \<^verbatim>\<open>zeroex.SignatureType\<close> constants are declared in another package;
  the function takes them as a parameter. \<^verbatim>\<open>signature\<close> is the byte sequence that
  \<^verbatim>\<open>common.FromHex(sig)\<close> shows. The cases are tried in the order of the source.
\<close>

record SignatureTypes =
  IllegalSignature :: byte
  InvalidSignature :: byte
  EIP712Signature :: byte
  EthSignSignature :: byte
  WalletSignature :: byte
  ValidatorSignature :: byte
  PreSignedSignature :: byte
  EIP1271WalletSignature :: byte

definition isValidSignature :: "SignatureTypes \<Rightarrow> byte list \<Rightarrow> bool outcome" where
  "isValidSignature T signature =
     (if length signature = 0 then Panic index_out_of_range
      else
        let signatureType = signature ! (length signature - 1)
        in if signatureType = InvalidSignature T \<or> signatureType = IllegalSignature T
           then Return False
           else if signatureType = EIP712Signature T
           then (if length signature \<noteq> 66 then Return False else Return True)
           else if signatureType = EthSignSignature T
           then (if length signature \<noteq> 66 then Return False else Return True)
           else if signatureType = ValidatorSignature T
           then (if length signature < 21 then Return False else Return True)
           else if signatureType = PreSignedSignature T \<or> signatureType = WalletSignature T
                   \<or> signatureType = EIP1271WalletSignature T
           then Return True
           else Return False)"

section \<open>Concrete orders\<close>

text \<open>
  The order of the margin example: price 100, quantity 10, margin 150, expiring at second
  2000, of order type 5, on a market with an initial margin ratio of 1000 permyriad and
  an index price of 95. The maker asset data are 32 bytes \<open>0x22\<close>, the taker asset data
  32 zero bytes, and every slice is as long as its backing array.
\<close>

definition example_base :: BaseOrder where
  "example_base =
     \<lparr>MakerAssetAmount = 100, TakerAssetAmount = 10, MakerFee = 150,
      ExpirationTimeSeconds = 2000,
      MakerAssetData = full_slice (replicate 32 34),
      TakerAssetData = full_slice (replicate 32 0),
      MakerFeeAssetData = full_slice (replicate 31 0 @ [5])\<rparr>"

definition example_order :: Order where
  "example_order = \<lparr>GetOrder = example_base, OrderType = 0, IndexPriceRequirement = []\<rparr>"

definition example_market :: DerivativeMarket where
  "example_market = \<lparr>InitialMarginRatio = 1000, IndexPrice = 95\<rparr>"

text \<open>
  Markets whose ratio makes the scaled quantity equal to the quantity, or to its negation,
  and the example order with quantity 0.
\<close>

definition full_ratio_market :: DerivativeMarket where
  "full_ratio_market = \<lparr>InitialMarginRatio = 10000, IndexPrice = 95\<rparr>"

definition negative_ratio_market :: DerivativeMarket where
  "negative_ratio_market = \<lparr>InitialMarginRatio = - 10000, IndexPrice = 95\<rparr>"

definition zero_quantity_order :: Order where
  "zero_quantity_order = example_order\<lparr>GetOrder := example_base\<lparr>TakerAssetAmount := 0\<rparr>\<rparr>"

text \<open>
  Orders that differ from the example in the maker fee asset data: the 32-byte number
  \<open>2 ^ 64\<close>; the number 1; no bytes at all; and 16 zero bytes.
\<close>

definition wide_type_order :: Order where
  "wide_type_order =
     example_order\<lparr>GetOrder :=
       example_base\<lparr>MakerFeeAssetData := full_slice (replicate 23 0 @ [1] @ replicate 8 0)\<rparr>\<rparr>"

definition unknown_type_order :: Order where
  "unknown_type_order =
     example_order\<lparr>GetOrder :=
       example_base\<lparr>MakerFeeAssetData := full_slice (replicate 31 0 @ [1])\<rparr>\<rparr>"



text \<open>
  An order of price 2, quantity -1 and margin -1, and a market of ratio 1 permyriad and
  index price 2.
\<close>

definition negative_quantity_order :: Order where
  "negative_quantity_order =
     example_order\<lparr>GetOrder :=
       example_base\<lparr>MakerAssetAmount := 2, TakerAssetAmount := - 1, MakerFee := - 1\<rparr>\<rparr>"

definition unit_ratio_market :: DerivativeMarket where
  "unit_ratio_market = \<lparr>InitialMarginRatio = 1, IndexPrice = 2\<rparr>"

text \<open>
  An order whose taker asset data are 20 zero bytes followed by 12 bytes \<open>0x01\<close>; the
  example order with another margin; the example market with index price 90.
\<close>

definition zero_prefix_base :: BaseOrder where
  "zero_prefix_base =
     example_base\<lparr>TakerAssetData := full_slice (replicate 20 0 @ replicate 12 1)\<rparr>"

definition margin_order :: "int \<Rightarrow> Order" where
  "margin_order m = example_order\<lparr>GetOrder := example_base\<lparr>MakerFee := m\<rparr>\<rparr>"

definition low_index_market :: DerivativeMarket where
  "low_index_market = \<lparr>InitialMarginRatio = 1000, IndexPrice = 90\<rparr>"

text \<open>Signature type values 0 to 7, in the order of the record's fields.\<close>

definition tags_0_to_7 :: SignatureTypes where
  "tags_0_to_7 =
     \<lparr>IllegalSignature = 0, InvalidSignature = 1, EIP712Signature = 2, EthSignSignature = 3,
      WalletSignature = 4, ValidatorSignature = 5, PreSignedSignature = 6,
      EIP1271WalletSignature = 7\<rparr>"

section \<open>Division\<close>

text \<open>
  \<^verbatim>\<open>Div\<close> by a positive divisor is the quotient rounded toward minus infinity, which is
  HOL's \<open>div\<close>; by a negative divisor it is the negated quotient by the magnitude.
\<close>

lemma Int_Div_pos: "0 < y \<Longrightarrow> Int_Div x y = Return (x div y)"
proof (cases "0 \<le> x")
  case True
  assume y: "0 < y"
  from True y have "Int_QuoRem x y = (x div y, x mod y)"
    by (simp add: Int_QuoRem_def Let_def sgn_if minus_mult_div_eq_mod algebra_simps)
  moreover have "\<not> x mod y < 0" using y by (simp add: not_less)
  ultimately show ?thesis using y by (simp add: Int_Div_def)
next
  case False
  assume y: "0 < y"
  define d where "d = (- x) div y"
  define m where "m = (- x) mod y"
  have dm: "- x = y * d + m" by (simp add: d_def m_def)
  have m0: "0 \<le> m" and my: "m < y" using y by (simp_all add: m_def)
  from False y have qr: "Int_QuoRem x y = (- d, - m)"
    using dm by (simp add: Int_QuoRem_def Let_def sgn_if d_def algebra_simps)
  show ?thesis
  proof (cases "m = 0")
    case True
    then have "x = y * (- d) + 0" using dm by (simp add: algebra_simps)
    then have "x div y = - d" using y by (metis int_div_pos_eq order_refl)
    with qr True y show ?thesis by (simp add: Int_Div_def)
  next
    case False
    then have mpos: "0 < m" using m0 by simp
    have "x = y * (- d - 1) + (y - m)" using dm by (simp add: algebra_simps)
    then have "x div y = - d - 1"
      using y mpos my by (intro int_div_pos_eq[where r = "y - m"]) auto
    with qr mpos y show ?thesis by (simp add: Int_Div_def)
  qed
qed

lemma Int_Div_neg: "y < 0 \<Longrightarrow> Int_Div x y = Return (- (x div (- y)))"
proof -
  assume y: "y < 0"
  have qr: "Int_QuoRem x y = (- fst (Int_QuoRem x (- y)), snd (Int_QuoRem x (- y)))"
    using y by (simp add: Int_QuoRem_def Let_def sgn_if)
  have pos: "Int_Div x (- y) = Return (x div (- y))" using y by (simp add: Int_Div_pos)
  show ?thesis using y pos unfolding Int_Div_def qr
    by (simp add: case_prod_beta split: if_splits)
qed

lemma Int_Div_zero: "Int_Div x 0 = Panic division_by_zero"
  by (simp add: Int_Div_def)

lemma Int_Quo_nonneg: "0 \<le> x \<Longrightarrow> 0 < y \<Longrightarrow> Int_Quo x y = x div y"
  by (simp add: Int_Quo_def Int_QuoRem_def Let_def sgn_if)

lemma ScalePermyriad_div: "ScalePermyriad amount permyriad = Return (amount * permyriad div 10000)"
  by (simp add: ScalePermyriad_def Int_Div_pos)

text \<open>
  The quotient of \<^verbatim>\<open>Div\<close> is \<open>euclid_quotient\<close>; the remainder it leaves lies between 0
  and the magnitude of the divisor.
\<close>

lemma Int_Div_euclid: "d \<noteq> 0 \<Longrightarrow> Int_Div n d = Return (euclid_quotient n d)"
  by (cases "0 < d") (simp_all add: euclid_quotient_def Int_Div_pos Int_Div_neg)

lemma euclid_quotient_remainder:
  assumes "d \<noteq> 0"
  shows "0 \<le> n - d * euclid_quotient n d" and "n - d * euclid_quotient n d < \<bar>d\<bar>"
proof -
  have rem: "n - d * euclid_quotient n d = n mod \<bar>d\<bar>"
  proof (cases "0 < d")
    case True
    then show ?thesis by (simp add: euclid_quotient_def minus_mult_div_eq_mod)
  next
    case False
    have "n - (- d) * (n div (- d)) = n mod (- d)"
      by (rule minus_mult_div_eq_mod)
    with False show ?thesis by (simp add: euclid_quotient_def abs_if)
  qed
  have "0 < \<bar>d\<bar>" using assms by simp
  then have "0 \<le> n mod \<bar>d\<bar>" and "n mod \<bar>d\<bar> < \<bar>d\<bar>"
    by (rule pos_mod_sign, rule pos_mod_bound)
  then show "0 \<le> n - d * euclid_quotient n d" and "n - d * euclid_quotient n d < \<bar>d\<bar>"
    by (simp_all only: rem)
qed

section \<open>The index-price margin requirement, unfolded\<close>

lemma ComputeIndexPriceMarginRequirement_eq:
  "ComputeIndexPriceMarginRequirement isLong market order =
     (let price = MakerAssetAmount (GetOrder order);
          quantity = TakerAssetAmount (GetOrder order);
          margin = MakerFee (GetOrder order);
          alpha = quantity * InitialMarginRatio market div 10000;
          num = (if isLong then margin - price * quantity else margin + price * quantity);
          den = (if isLong then alpha - quantity else alpha + quantity)
      in if den = 0 then Panic division_by_zero
         else Return (euclid_quotient num den,
                      order\<lparr>IndexPriceRequirement := Int_String (euclid_quotient num den)\<rparr>))"
  by (auto simp: ComputeIndexPriceMarginRequirement_def ScalePermyriad_div Let_def
      Int_Div_zero Int_Div_euclid)

lemma ComputeOrderMarginHold_eq:
  "ComputeOrderMarginHold remainingQuantity makerTxFeePermyriad order =
     Int_Div ((MakerFee (GetOrder order)
                 + MakerFee (GetOrder order) * makerTxFeePermyriad div 10000) * remainingQuantity)
             (TakerAssetAmount (GetOrder order))"
  by (simp add: ComputeOrderMarginHold_def IncrementByScaledPermyriad_def ScalePermyriad_div
      Let_def)

lemma ComputeContractPriceMarginRequirement_eq:
  "ComputeContractPriceMarginRequirement market order =
     Return (TakerAssetAmount (GetOrder order) * InitialMarginRatio market div 10000
             * MakerAssetAmount (GetOrder order))"
  by (simp add: ComputeContractPriceMarginRequirement_def ScalePermyriad_div Let_def)

section \<open>The order type step and the pipeline, unfolded\<close>

lemma ComputeAndSetOrderType_eq:
  "ComputeAndSetOrderType order =
     (let s = MakerFeeAssetData (GetOrder order)
      in if cap s < 32 then Panic slice_bounds_out_of_range
         else let t = Int_Uint64 (Int_SetBytes (take 32 (elems s @ spare s)))
              in if t \<noteq> 0 \<and> t \<noteq> 5 then Return (Some ErrUnrecognizedOrderType, order)
                 else Return (None, order\<lparr>OrderType := t\<rparr>))"
  by (simp add: ComputeAndSetOrderType_def slice_to_def HashLength_def Let_def)

lemma ComputeAndSetOrderType_cases:
  obtains "ComputeAndSetOrderType order = Panic slice_bounds_out_of_range"
  | "ComputeAndSetOrderType order = Return (Some ErrUnrecognizedOrderType, order)"
  | t where "t = 0 \<or> t = 5"
      and "ComputeAndSetOrderType order = Return (None, order\<lparr>OrderType := t\<rparr>)"
proof -
  have "ComputeAndSetOrderType order = Panic slice_bounds_out_of_range
      \<or> ComputeAndSetOrderType order = Return (Some ErrUnrecognizedOrderType, order)
      \<or> (\<exists>t. (t = 0 \<or> t = 5)
              \<and> ComputeAndSetOrderType order = Return (None, order\<lparr>OrderType := t\<rparr>))"
    by (auto simp: ComputeAndSetOrderType_eq Let_def)
  with that show thesis by blast
qed

lemma DoesValidationPass_typed:
  assumes "ComputeAndSetOrderType order0 = Return (None, order)"
  shows "DoesValidationPass isLong market currBlockTime order0 =
     (if ExpirationTimeSeconds (GetOrder order) \<le> sint currBlockTime
      then Return (Some ErrOrderExpired, order)
      else if MakerFee (GetOrder order)
                < TakerAssetAmount (GetOrder order) * InitialMarginRatio market div 10000
                  * MakerAssetAmount (GetOrder order)
      then Return (Some (ErrOverLeveragedOrder MarginBelowContractPriceRequirement), order)
      else and_then (ComputeIndexPriceMarginRequirement isLong market order) (\<lambda>(q, order').
             if isLong \<and> IndexPrice market < q
             then Return (Some (ErrOverLeveragedOrder IndexPriceBelowRequirement), order')
             else if \<not> isLong \<and> IndexPrice market > q
             then Return (Some (ErrOverLeveragedOrder IndexPriceAboveRequirement), order')
             else Return (None, order')))"
  by (simp add: DoesValidationPass_def assms ComputeContractPriceMarginRequirement_eq Let_def)

lemma DoesValidationPass_untyped:
  "ComputeAndSetOrderType order0 = Return (Some e, order) \<Longrightarrow>
     DoesValidationPass isLong market currBlockTime order0 = Return (Some e, order)"
  "ComputeAndSetOrderType order0 = Panic p \<Longrightarrow>
     DoesValidationPass isLong market currBlockTime order0 = Panic p"
  by (simp_all add: DoesValidationPass_def)

text \<open>What the index-price step can return, and what it writes.\<close>

lemma index_step_result:
  "and_then (ComputeIndexPriceMarginRequirement isLong market order) (\<lambda>(q, order').
             if isLong \<and> IndexPrice market < q
             then Return (Some (ErrOverLeveragedOrder IndexPriceBelowRequirement), order')
             else if \<not> isLong \<and> IndexPrice market > q
             then Return (Some (ErrOverLeveragedOrder IndexPriceAboveRequirement), order')
             else Return (None, order')) = Return (r, order'') \<Longrightarrow>
   r \<noteq> Some ErrOrderExpired
   \<and> r \<noteq> Some (ErrOverLeveragedOrder MarginBelowContractPriceRequirement)
   \<and> r \<noteq> Some ErrUnrecognizedOrderType
   \<and> (\<exists>q. ComputeIndexPriceMarginRequirement isLong market order
              = Return (q, order\<lparr>IndexPriceRequirement := Int_String q\<rparr>)
          \<and> order'' = order\<lparr>IndexPriceRequirement := Int_String q\<rparr>)"
  by (cases "ComputeIndexPriceMarginRequirement isLong market order")
     (auto simp: ComputeIndexPriceMarginRequirement_eq Let_def split: if_splits)

section \<open>Permyriad scaling\<close>

text \<open>
  C3 (as the code has it). For all integers \<open>amount\<close> and \<open>permyriad\<close>, negative ones
  included, \<^verbatim>\<open>ScalePermyriad(amount, permyriad)\<close> never fails and returns
  \<open>amount * permyriad / 10000\<close> rounded toward minus infinity: the result \<open>q\<close> satisfies
  \<open>10000 * q \<le> amount * permyriad < 10000 * q + 10000\<close>. When the product is not
  negative, this is the quotient truncated toward zero.
\<close>

theorem ScalePermyriad_floor:
  "ScalePermyriad amount permyriad = Return (amount * permyriad div 10000)
   \<and> 10000 * (amount * permyriad div 10000) \<le> amount * permyriad
   \<and> amount * permyriad < 10000 * (amount * permyriad div 10000) + 10000
   \<and> (0 \<le> amount * permyriad \<longrightarrow>
        ScalePermyriad amount permyriad = Return (Int_Quo (amount * permyriad) 10000))"
proof -
  have "amount * permyriad mod 10000 < 10000" "0 \<le> amount * permyriad mod 10000" by simp_all
  then show ?thesis
    by (simp add: ScalePermyriad_div Int_Quo_nonneg minus_mod_eq_mult_div [symmetric])
qed

theorem ScalePermyriad_floor_witness:
  "(0::int) \<le> 7 * 1500 \<and> ScalePermyriad 7 1500 = Return 1 \<and> Int_Quo (7 * 1500) 10000 = 1"
  using ScalePermyriad_floor [of 7 1500] by auto

text \<open>
  C3 as stated fails: for \<open>amount = -1\<close> and \<open>permyriad = 1\<close> the quotient truncated
  toward zero is 0, and \<^verbatim>\<open>ScalePermyriad\<close> returns -1.
\<close>

theorem ScalePermyriad_trunc_counterexample:
  "ScalePermyriad (- 1) 1 = Return (- 1) \<and> Int_Quo (- 1 * 1) 10000 = 0
   \<and> ScalePermyriad (- 1) 1 \<noteq> Return (Int_Quo (- 1 * 1) 10000)"
  by (simp add: ScalePermyriad_div Int_Quo_def Int_QuoRem_def)

section \<open>The index-price margin requirement\<close>

text \<open>
  C1 (as the code has it). With \<open>alpha\<close> the scaled quantity, the numerator
  \<open>margin - price * quantity\<close> and the denominator \<open>alpha - quantity\<close> for a long order,
  \<open>margin + price * quantity\<close> and \<open>alpha + quantity\<close> for a short one, and a denominator
  other than zero, \<^verbatim>\<open>ComputeIndexPriceMarginRequirement\<close> returns the Euclidean quotient
  \<open>q\<close> of numerator by denominator, the one whose remainder \<open>num - den * q\<close> is at least 0
  and below \<open>\<bar>den\<bar>\<close>, and stores the decimal text of \<open>q\<close> as the order's
  \<^verbatim>\<open>IndexPriceRequirement\<close>.
\<close>

theorem ComputeIndexPriceMarginRequirement_euclidean:
  "let price = MakerAssetAmount (GetOrder order);
       quantity = TakerAssetAmount (GetOrder order);
       margin = MakerFee (GetOrder order);
       alpha = quantity * InitialMarginRatio market div 10000;
       num = (if isLong then margin - price * quantity else margin + price * quantity);
       den = (if isLong then alpha - quantity else alpha + quantity);
       q = euclid_quotient num den
   in den \<noteq> 0 \<longrightarrow>
        ComputeIndexPriceMarginRequirement isLong market order =
          Return (q, order\<lparr>IndexPriceRequirement := Int_String q\<rparr>)
        \<and> 0 \<le> num - den * q \<and> num - den * q < \<bar>den\<bar>"
  unfolding Let_def
  by (intro impI conjI euclid_quotient_remainder)
     (simp_all add: ComputeIndexPriceMarginRequirement_eq Let_def)

text \<open>
  At the long order of the example (margin 150, price 100, quantity 10, ratio 1000) the
  numerator is -850, the denominator -9, and the result is 95, with remainder 5.
\<close>

theorem ComputeIndexPriceMarginRequirement_euclidean_witness:
  "(10 * 1000 div 10000 - 10 \<noteq> (0::int))
   \<and> ComputeIndexPriceMarginRequirement True example_market example_order =
       Return (95, example_order\<lparr>IndexPriceRequirement := ''95''\<rparr>)
   \<and> (0::int) \<le> (150 - 100 * 10) - (10 * 1000 div 10000 - 10) * 95
   \<and> (150 - 100 * 10) - (10 * 1000 div 10000 - 10) * 95 < \<bar>10 * 1000 div 10000 - 10 :: int\<bar>"
  using ComputeIndexPriceMarginRequirement_euclidean [of example_order example_market True]
  by (simp add: Let_def example_order_def example_base_def example_market_def
      euclid_quotient_def Int_String_def)

text \<open>
  C1 as stated fails at its own example: the quotient truncated toward zero is 94, and the
  function returns 95 and stores the text \<open>95\<close>.
\<close>

theorem ComputeIndexPriceMarginRequirement_trunc_counterexample:
  "ComputeIndexPriceMarginRequirement True example_market example_order =
       Return (95, example_order\<lparr>IndexPriceRequirement := ''95''\<rparr>)
   \<and> Int_Quo (150 - 100 * 10) (1 - 10) = 94
   \<and> ComputeIndexPriceMarginRequirement True example_market example_order \<noteq>
       Return (94, example_order\<lparr>IndexPriceRequirement := ''94''\<rparr>)"
  by (simp add: ComputeIndexPriceMarginRequirement_eq Let_def example_order_def
      example_base_def example_market_def euclid_quotient_def Int_String_def
      Int_Quo_def Int_QuoRem_def)

section \<open>Division by zero\<close>

text \<open>
  C2 (as the code has it). \<^verbatim>\<open>ComputeIndexPriceMarginRequirement\<close> and
  \<^verbatim>\<open>ComputeOrderMarginHold\<close> return a \<^verbatim>\<open>*big.Int\<close> and no error. With a zero
  denominator (a long order whose scaled quantity equals the quantity, a short order whose
  scaled quantity equals the negated quantity) the first, and with a taker asset amount of
  0 the second, stop in the division-by-zero run-time panic of \<^verbatim>\<open>Div\<close>.
\<close>

theorem division_by_zero_panics:
  "(ScalePermyriad (TakerAssetAmount (GetOrder order)) (InitialMarginRatio market)
      = Return (TakerAssetAmount (GetOrder order)) \<longrightarrow>
      ComputeIndexPriceMarginRequirement True market order = Panic division_by_zero)
   \<and> (ScalePermyriad (TakerAssetAmount (GetOrder order)) (InitialMarginRatio market)
      = Return (- TakerAssetAmount (GetOrder order)) \<longrightarrow>
      ComputeIndexPriceMarginRequirement False market order = Panic division_by_zero)
   \<and> (TakerAssetAmount (GetOrder order) = 0 \<longrightarrow>
      ComputeOrderMarginHold remainingQuantity makerTxFeePermyriad order
        = Panic division_by_zero)"
  by (simp add: ComputeIndexPriceMarginRequirement_eq ComputeOrderMarginHold_eq
      ScalePermyriad_div Int_Div_zero Let_def)

theorem division_by_zero_panics_witness:
  "ScalePermyriad (TakerAssetAmount (GetOrder example_order))
       (InitialMarginRatio full_ratio_market) = Return (TakerAssetAmount (GetOrder example_order))
   \<and> ComputeIndexPriceMarginRequirement True full_ratio_market example_order
       = Panic division_by_zero
   \<and> ScalePermyriad (TakerAssetAmount (GetOrder example_order))
       (InitialMarginRatio negative_ratio_market)
       = Return (- TakerAssetAmount (GetOrder example_order))
   \<and> ComputeIndexPriceMarginRequirement False negative_ratio_market example_order
       = Panic division_by_zero
   \<and> TakerAssetAmount (GetOrder zero_quantity_order) = 0
   \<and> ComputeOrderMarginHold 10 15 zero_quantity_order = Panic division_by_zero"
  using division_by_zero_panics [of example_order full_ratio_market]
    division_by_zero_panics [of example_order negative_ratio_market]
    division_by_zero_panics [of zero_quantity_order example_market 10 15]
  by (simp add: ScalePermyriad_div example_order_def example_base_def full_ratio_market_def
      negative_ratio_market_def zero_quantity_order_def)

text \<open>
  C2 as stated fails: at these inputs the two functions return nothing, no error value
  either; they panic, and so does \<^verbatim>\<open>DoesValidationPass\<close>, the caller that has an
  error result, on the order with quantity 0.
\<close>

theorem division_by_zero_counterexample:
  "ComputeIndexPriceMarginRequirement True full_ratio_market example_order
       = Panic division_by_zero
   \<and> ComputeIndexPriceMarginRequirement False negative_ratio_market example_order
       = Panic division_by_zero
   \<and> ComputeOrderMarginHold 10 15 zero_quantity_order = Panic division_by_zero
   \<and> DoesValidationPass True example_market 1000 zero_quantity_order = Panic division_by_zero"
  by code_simp

section \<open>Direction and market\<close>

text \<open>
  C4 (as the code has it). \<^verbatim>\<open>GetDirectionMarketAndSubaccountID\<close> cuts the maker and the
  taker asset data to their leading 32 bytes (\<^verbatim>\<open>common.HashLength\<close>) when longer. When
  the cut taker asset data are 32 zero bytes, the direction is long and the market is the
  cut maker asset data, padded on the left with zero bytes to 32 bytes; otherwise the
  direction is short and the market is the cut taker asset data, padded the same way.
  The function never panics.
\<close>

theorem GetDirectionMarketAndSubaccountID_32:
  "GetDirectionMarketAndSubaccountID m =
     Return (if take 32 (elems (TakerAssetData m)) = replicate 32 0
             then (True, replicate (32 - length (take 32 (elems (MakerAssetData m)))) 0
                           @ take 32 (elems (MakerAssetData m)))
             else (False, replicate (32 - length (take 32 (elems (TakerAssetData m)))) 0
                            @ take 32 (elems (TakerAssetData m))))"
  by (auto simp: GetDirectionMarketAndSubaccountID_def slice_to_def cap_def len_def
      HashLength_def bytes_Equal_def Hash_zero_Bytes_def BytesToHash_def Let_def min_def)

text \<open>
  The example order, with 32 zero bytes of taker asset data, is long on the market of its
  maker asset data.
\<close>

theorem GetDirectionMarketAndSubaccountID_32_witness:
  "take 32 (elems (TakerAssetData example_base)) = replicate 32 0
   \<and> GetDirectionMarketAndSubaccountID example_base = Return (True, replicate 32 34)"
proof -
  have t: "take 32 (elems (TakerAssetData example_base)) = replicate 32 0"
    by code_simp
  have m: "replicate (32 - length (take 32 (elems (MakerAssetData example_base)))) 0
             @ take 32 (elems (MakerAssetData example_base)) = replicate 32 34"
    by code_simp
  show ?thesis
    using GetDirectionMarketAndSubaccountID_32 [of example_base] by (simp only: t m if_True simp_thms)
qed

text \<open>
  C4 as stated fails: taker asset data of 20 zero bytes followed by 12 bytes \<open>0x01\<close> have
  20 leading zero bytes, and the order is short, on the market of all 32 taker bytes.
\<close>

theorem GetDirectionMarketAndSubaccountID_20_counterexample:
  "take 20 (elems (TakerAssetData zero_prefix_base)) = replicate 20 0
   \<and> GetDirectionMarketAndSubaccountID zero_prefix_base
       = Return (False, replicate 20 0 @ replicate 12 1)"
  by code_simp

section \<open>The order type\<close>

text \<open>
  C5, at the input where the code leaves it. The 32 bytes of the maker fee asset data are
  the number \<open>2 ^ 64\<close>, which is neither 0 nor 5; \<^verbatim>\<open>Uint64()\<close> keeps its low 64 bits,
  and \<^verbatim>\<open>ComputeAndSetOrderType\<close> accepts the order with order type 0.
\<close>

theorem ComputeAndSetOrderType_accepts_2_64:
  "len (MakerFeeAssetData (GetOrder wide_type_order)) = 32
   \<and> Int_SetBytes (elems (MakerFeeAssetData (GetOrder wide_type_order))) = 18446744073709551616
   \<and> ComputeAndSetOrderType wide_type_order = Return (None, wide_type_order\<lparr>OrderType := 0\<rparr>)"
  by code_simp




section \<open>Expiry\<close>

text \<open>
  C7 (as the code has it). \<^verbatim>\<open>DoesValidationPass\<close> returns \<^verbatim>\<open>ErrOrderExpired\<close> exactly
  when the order type step before it returns without error and
  \<open>expirationTimeSeconds \<le> currentTime\<close>; the boundary is inclusive.
\<close>

theorem OrderExpired_iff:
  "(\<exists>order'. DoesValidationPass isLong market currBlockTime order
                 = Return (Some ErrOrderExpired, order'))
   \<longleftrightarrow> (\<exists>order'. ComputeAndSetOrderType order = Return (None, order'))
        \<and> ExpirationTimeSeconds (GetOrder order) \<le> sint currBlockTime"
proof (cases order rule: ComputeAndSetOrderType_cases)
  case 1
  then show ?thesis by (simp add: DoesValidationPass_untyped)
next
  case 2
  then show ?thesis by (simp add: DoesValidationPass_untyped)
next
  case (3 t)
  show ?thesis
    using index_step_result [of isLong market "order\<lparr>OrderType := t\<rparr>"]
    by (auto simp: 3 DoesValidationPass_typed [OF 3(2)] split: if_splits)
qed

text \<open>At the boundary: the example order, which expires at second 2000, at second 2000.\<close>

theorem OrderExpired_iff_witness:
  "ExpirationTimeSeconds (GetOrder example_order) = sint (2000 :: 64 word)
   \<and> (\<exists>order'. DoesValidationPass True example_market 2000 example_order
                  = Return (Some ErrOrderExpired, order'))"
proof -
  have e: "ExpirationTimeSeconds (GetOrder example_order) = sint (2000 :: 64 word)"
    by code_simp
  have t: "ComputeAndSetOrderType example_order = Return (None, example_order\<lparr>OrderType := 5\<rparr>)"
    by code_simp
  show ?thesis
    using e t OrderExpired_iff [of True example_market 2000 example_order] by simp
qed

text \<open>
  C7 as stated fails: an order of an unrecognised type that has expired is rejected with
  \<^verbatim>\<open>ErrUnrecognizedOrderType\<close>.
\<close>

theorem OrderExpired_counterexample:
  "ExpirationTimeSeconds (GetOrder unknown_type_order) \<le> sint (2000 :: 64 word)
   \<and> DoesValidationPass True example_market 2000 unknown_type_order
       = Return (Some ErrUnrecognizedOrderType, unknown_type_order)"
  by code_simp

section \<open>Partial effects of a rejection\<close>

text \<open>
  C6 (as the code has it). The order is written in place as the steps run. When
  \<^verbatim>\<open>DoesValidationPass\<close> returns, a rejection with \<^verbatim>\<open>ErrUnrecognizedOrderType\<close> has
  left the order as it was; a rejection as expired or at the contract-price step has
  left \<^verbatim>\<open>OrderType\<close> set, to 0 or 5; a rejection at the index-price step has left
  \<^verbatim>\<open>OrderType\<close> and \<^verbatim>\<open>IndexPriceRequirement\<close> set, as an accepted run has.
\<close>

theorem rejection_effects:
  assumes "DoesValidationPass isLong market currBlockTime order = Return (res, order')"
  shows "(res = Some ErrUnrecognizedOrderType \<longrightarrow> order' = order)
   \<and> (res = Some ErrOrderExpired
        \<or> res = Some (ErrOverLeveragedOrder MarginBelowContractPriceRequirement) \<longrightarrow>
        (\<exists>t. (t = 0 \<or> t = 5) \<and> order' = order\<lparr>OrderType := t\<rparr>))
   \<and> (res = Some (ErrOverLeveragedOrder IndexPriceBelowRequirement)
        \<or> res = Some (ErrOverLeveragedOrder IndexPriceAboveRequirement)
        \<or> res = None \<longrightarrow>
        (\<exists>t q. (t = 0 \<or> t = 5)
           \<and> order' = order\<lparr>OrderType := t, IndexPriceRequirement := Int_String q\<rparr>))"
proof (cases order rule: ComputeAndSetOrderType_cases)
  case 1
  with assms show ?thesis by (simp add: DoesValidationPass_untyped)
next
  case 2
  with assms show ?thesis by (auto simp: DoesValidationPass_untyped)
next
  case (3 t)
  let ?o = "order\<lparr>OrderType := t\<rparr>"
  note dvp = assms [unfolded DoesValidationPass_typed [OF 3(2)]]
  show ?thesis
  proof (cases "ExpirationTimeSeconds (GetOrder ?o) \<le> sint currBlockTime")
    case True
    with dvp 3(1) show ?thesis by auto
  next
    case False
    note notexp = this
    show ?thesis
    proof (cases "MakerFee (GetOrder ?o)
                < TakerAssetAmount (GetOrder ?o) * InitialMarginRatio market div 10000
                  * MakerAssetAmount (GetOrder ?o)")
      case True
      with dvp notexp 3(1) show ?thesis by auto
    next
      case False
      with dvp notexp index_step_result [of isLong market ?o res order']
      obtain q where "res \<noteq> Some ErrOrderExpired"
        "res \<noteq> Some (ErrOverLeveragedOrder MarginBelowContractPriceRequirement)"
        "res \<noteq> Some ErrUnrecognizedOrderType"
        "order' = ?o\<lparr>IndexPriceRequirement := Int_String q\<rparr>"
        by auto
      with 3(1) show ?thesis by auto
    qed
  qed
qed


theorem rejection_effects_witness:
  "DoesValidationPass True example_market 2000 unknown_type_order
     = Return (Some ErrUnrecognizedOrderType, unknown_type_order)
   \<and> DoesValidationPass True example_market 2000 example_order
     = Return (Some ErrOrderExpired, example_order\<lparr>OrderType := 5\<rparr>)
   \<and> (\<exists>t. (t = 0 \<or> t = 5) \<and> example_order\<lparr>OrderType := 5\<rparr> = example_order\<lparr>OrderType := t\<rparr>)
   \<and> DoesValidationPass True low_index_market 1000 example_order
     = Return (Some (ErrOverLeveragedOrder IndexPriceBelowRequirement),
               example_order\<lparr>OrderType := 5, IndexPriceRequirement := ''95''\<rparr>)
   \<and> (\<exists>t q. (t = 0 \<or> t = 5)
         \<and> example_order\<lparr>OrderType := 5, IndexPriceRequirement := ''95''\<rparr>
             = example_order\<lparr>OrderType := t, IndexPriceRequirement := Int_String q\<rparr>)"
proof -
  have a: "DoesValidationPass True example_market 2000 unknown_type_order
     = Return (Some ErrUnrecognizedOrderType, unknown_type_order)"
    by code_simp
  have b: "DoesValidationPass True example_market 2000 example_order
     = Return (Some ErrOrderExpired, example_order\<lparr>OrderType := 5\<rparr>)"
    by code_simp
  have c: "DoesValidationPass True low_index_market 1000 example_order
     = Return (Some (ErrOverLeveragedOrder IndexPriceBelowRequirement),
               example_order\<lparr>OrderType := 5, IndexPriceRequirement := ''95''\<rparr>)"
    by code_simp
  show ?thesis
    using rejection_effects [OF a] rejection_effects [OF b] rejection_effects [OF c] a b c
    by simp
qed


text \<open>
  C6 as stated fails: the example order, rejected as expired at second 2000, comes back
  with order type 5 where it had 0; rejected at the index-price step on a market with
  index price 90, it comes back with both fields written.
\<close>

theorem rejection_effects_counterexample:
  "DoesValidationPass True example_market 2000 example_order
     = Return (Some ErrOrderExpired, example_order\<lparr>OrderType := 5\<rparr>)
   \<and> OrderType example_order = 0
   \<and> example_order\<lparr>OrderType := 5\<rparr> \<noteq> example_order
   \<and> DoesValidationPass True low_index_market 1000 example_order
     = Return (Some (ErrOverLeveragedOrder IndexPriceBelowRequirement),
               example_order\<lparr>OrderType := 5, IndexPriceRequirement := ''95''\<rparr>)
   \<and> IndexPriceRequirement example_order = []"
  by code_simp

section \<open>The contract-price step\<close>

text \<open>
  C8 (as the code has it). The contract-price margin requirement is the scaled quantity
  times the price, where the scaled quantity is \<open>quantity * initialMarginRatio / 10000\<close>
  rounded toward minus infinity (HOL's \<open>div\<close>). \<^verbatim>\<open>DoesValidationPass\<close> rejects an order
  as over-leveraged at the contract-price step exactly when the order type step returns
  without error, the order has not expired, and the margin is strictly below the
  requirement; a margin equal to the requirement passes the step.
\<close>

theorem contract_price_rejection_iff:
  "ScalePermyriad (TakerAssetAmount (GetOrder order)) (InitialMarginRatio market)
     = Return (TakerAssetAmount (GetOrder order) * InitialMarginRatio market div 10000)
   \<and> ComputeContractPriceMarginRequirement market order
     = Return (TakerAssetAmount (GetOrder order) * InitialMarginRatio market div 10000
               * MakerAssetAmount (GetOrder order))
   \<and> ((\<exists>order'. DoesValidationPass isLong market currBlockTime order
          = Return (Some (ErrOverLeveragedOrder MarginBelowContractPriceRequirement), order'))
       \<longleftrightarrow> (\<exists>order'. ComputeAndSetOrderType order = Return (None, order'))
            \<and> \<not> ExpirationTimeSeconds (GetOrder order) \<le> sint currBlockTime
            \<and> MakerFee (GetOrder order)
                 < TakerAssetAmount (GetOrder order) * InitialMarginRatio market div 10000
                   * MakerAssetAmount (GetOrder order))"
proof (intro conjI)
  show "ScalePermyriad (TakerAssetAmount (GetOrder order)) (InitialMarginRatio market)
     = Return (TakerAssetAmount (GetOrder order) * InitialMarginRatio market div 10000)"
    by (rule ScalePermyriad_div)
  show "ComputeContractPriceMarginRequirement market order
     = Return (TakerAssetAmount (GetOrder order) * InitialMarginRatio market div 10000
               * MakerAssetAmount (GetOrder order))"
    by (rule ComputeContractPriceMarginRequirement_eq)
  show "(\<exists>order'. DoesValidationPass isLong market currBlockTime order
          = Return (Some (ErrOverLeveragedOrder MarginBelowContractPriceRequirement), order'))
       \<longleftrightarrow> (\<exists>order'. ComputeAndSetOrderType order = Return (None, order'))
            \<and> \<not> ExpirationTimeSeconds (GetOrder order) \<le> sint currBlockTime
            \<and> MakerFee (GetOrder order)
                 < TakerAssetAmount (GetOrder order) * InitialMarginRatio market div 10000
                   * MakerAssetAmount (GetOrder order)"
  proof (cases order rule: ComputeAndSetOrderType_cases)
    case 1
    then show ?thesis by (simp add: DoesValidationPass_untyped)
  next
    case 2
    then show ?thesis by (simp add: DoesValidationPass_untyped)
  next
    case (3 t)
    show ?thesis
      using index_step_result [of isLong market "order\<lparr>OrderType := t\<rparr>"]
      by (auto simp: 3 DoesValidationPass_typed [OF 3(2)] split: if_splits)
  qed
qed

text \<open>
  The example order with margin 99 is rejected at this step against the requirement 100;
  with margin 100, equal to the requirement, it is not.
\<close>

theorem contract_price_rejection_iff_witness:
  "ComputeContractPriceMarginRequirement example_market (margin_order 99) = Return 100
   \<and> MakerFee (GetOrder (margin_order 99)) = 99
   \<and> DoesValidationPass True example_market 1000 (margin_order 99)
        = Return (Some (ErrOverLeveragedOrder MarginBelowContractPriceRequirement),
                  (margin_order 99)\<lparr>OrderType := 5\<rparr>)
   \<and> ComputeContractPriceMarginRequirement example_market (margin_order 100) = Return 100
   \<and> MakerFee (GetOrder (margin_order 100)) = 100
   \<and> \<not> (\<exists>order'. DoesValidationPass True example_market 1000 (margin_order 100)
        = Return (Some (ErrOverLeveragedOrder MarginBelowContractPriceRequirement), order'))"
proof -
  have v: "MakerFee (GetOrder (margin_order 100)) = 100"
    "MakerFee (GetOrder (margin_order 99)) = 99"
    "MakerAssetAmount (GetOrder (margin_order 100)) = 100"
    "MakerAssetAmount (GetOrder (margin_order 99)) = 100"
    "TakerAssetAmount (GetOrder (margin_order 100)) = 10"
    "TakerAssetAmount (GetOrder (margin_order 99)) = 10"
    "InitialMarginRatio example_market = 1000"
    by code_simp+
  have d: "DoesValidationPass True example_market 1000 (margin_order 99)
        = Return (Some (ErrOverLeveragedOrder MarginBelowContractPriceRequirement),
                  (margin_order 99)\<lparr>OrderType := 5\<rparr>)"
    by code_simp
  show ?thesis
    using contract_price_rejection_iff [of "margin_order 100" example_market True 1000]
      contract_price_rejection_iff [of "margin_order 99" example_market True 1000]
    by (simp add: v d)
qed

text \<open>
  C8 as stated fails twice. The example order with margin 99, below the requirement 100,
  is rejected at second 2000 as expired, not as over-leveraged. The order of price 2,
  quantity -1 and margin -1 on a market of ratio 1 has a margin below the requirement
  computed with the quotient truncated toward zero, which is 0; the code's requirement
  is -2, the order passes this step and, as a short order, is accepted.
\<close>

theorem contract_price_rejection_counterexample:
  "ComputeContractPriceMarginRequirement example_market (margin_order 99) = Return 100
   \<and> MakerFee (GetOrder (margin_order 99)) < 100
   \<and> DoesValidationPass True example_market 2000 (margin_order 99)
        = Return (Some ErrOrderExpired, (margin_order 99)\<lparr>OrderType := 5\<rparr>)
   \<and> MakerFee (GetOrder negative_quantity_order)
        < Int_Quo (TakerAssetAmount (GetOrder negative_quantity_order)
                     * InitialMarginRatio unit_ratio_market) 10000
          * MakerAssetAmount (GetOrder negative_quantity_order)
   \<and> ComputeContractPriceMarginRequirement unit_ratio_market negative_quantity_order
        = Return (- 2)
   \<and> DoesValidationPass False unit_ratio_market 1000 negative_quantity_order
        = Return (None, negative_quantity_order\<lparr>OrderType := 5, IndexPriceRequirement := ''2''\<rparr>)"
  by code_simp

section \<open>The signature rules\<close>

text \<open>The \<^verbatim>\<open>switch\<close> of \<^verbatim>\<open>isValidSignature\<close> on a signature that is not empty.\<close>

lemma isValidSignature_switch:
  assumes "signature \<noteq> []"
  shows "isValidSignature T signature =
     (if last signature = InvalidSignature T \<or> last signature = IllegalSignature T
           then Return False
           else if last signature = EIP712Signature T
           then Return (length signature = 66)
           else if last signature = EthSignSignature T
           then Return (length signature = 66)
           else if last signature = ValidatorSignature T
           then Return (21 \<le> length signature)
           else if last signature = PreSignedSignature T \<or> last signature = WalletSignature T
                   \<or> last signature = EIP1271WalletSignature T
           then Return True
           else Return False)"
proof -
  have l: "signature ! (length signature - 1) = last signature"
    using assms(1) by (simp add: last_conv_nth)
  have n: "length signature \<noteq> 0" using assms by simp
  show ?thesis
    unfolding isValidSignature_def Let_def l if_not_P [OF n]
    by (simp only: if_distrib [of Return, symmetric] not_less not_not if_bool_eq_conj simp_thms)
qed


text \<open>
  C9. On a decoded signature that is not empty, with the eight signature type constants
  distinct (as the cases of a Go \<^verbatim>\<open>switch\<close> on constants are), \<^verbatim>\<open>isValidSignature\<close>
  selects on the last byte: false for the invalid and illegal types; for EIP712 and
  EthSign, true exactly when the length is 66; for the validator type, true exactly when
  the length is at least 21; true for the pre-signed, wallet and EIP1271 wallet types;
  false for every other byte.
\<close>

theorem isValidSignature_rules:
  assumes "signature \<noteq> []"
    and "distinct [IllegalSignature T, InvalidSignature T, EIP712Signature T,
                   EthSignSignature T, WalletSignature T, ValidatorSignature T,
                   PreSignedSignature T, EIP1271WalletSignature T]"
  shows "let tag = last signature in
     (tag = InvalidSignature T \<or> tag = IllegalSignature T \<longrightarrow>
        isValidSignature T signature = Return False)
   \<and> (tag = EIP712Signature T \<or> tag = EthSignSignature T \<longrightarrow>
        isValidSignature T signature = Return (length signature = 66))
   \<and> (tag = ValidatorSignature T \<longrightarrow>
        isValidSignature T signature = Return (21 \<le> length signature))
   \<and> (tag = PreSignedSignature T \<or> tag = WalletSignature T
        \<or> tag = EIP1271WalletSignature T \<longrightarrow>
        isValidSignature T signature = Return True)
   \<and> (tag \<notin> {IllegalSignature T, InvalidSignature T, EIP712Signature T,
                EthSignSignature T, WalletSignature T, ValidatorSignature T,
                PreSignedSignature T, EIP1271WalletSignature T} \<longrightarrow>
        isValidSignature T signature = Return False)"
proof -
  note d = isValidSignature_switch [OF assms(1), of T]
  have ne0:
    "IllegalSignature T \<noteq> InvalidSignature T" "IllegalSignature T \<noteq> EIP712Signature T"
    "IllegalSignature T \<noteq> EthSignSignature T" "IllegalSignature T \<noteq> WalletSignature T"
    "IllegalSignature T \<noteq> ValidatorSignature T" "IllegalSignature T \<noteq> PreSignedSignature T"
    "IllegalSignature T \<noteq> EIP1271WalletSignature T" "InvalidSignature T \<noteq> EIP712Signature T"
    "InvalidSignature T \<noteq> EthSignSignature T" "InvalidSignature T \<noteq> WalletSignature T"
    "InvalidSignature T \<noteq> ValidatorSignature T" "InvalidSignature T \<noteq> PreSignedSignature T"
    "InvalidSignature T \<noteq> EIP1271WalletSignature T" "EIP712Signature T \<noteq> EthSignSignature T"
    "EIP712Signature T \<noteq> WalletSignature T" "EIP712Signature T \<noteq> ValidatorSignature T"
    "EIP712Signature T \<noteq> PreSignedSignature T" "EIP712Signature T \<noteq> EIP1271WalletSignature T"
    "EthSignSignature T \<noteq> WalletSignature T" "EthSignSignature T \<noteq> ValidatorSignature T"
    "EthSignSignature T \<noteq> PreSignedSignature T" "EthSignSignature T \<noteq> EIP1271WalletSignature T"
    "WalletSignature T \<noteq> ValidatorSignature T" "WalletSignature T \<noteq> PreSignedSignature T"
    "WalletSignature T \<noteq> EIP1271WalletSignature T" "ValidatorSignature T \<noteq> PreSignedSignature T"
    "ValidatorSignature T \<noteq> EIP1271WalletSignature T" "PreSignedSignature T \<noteq> EIP1271WalletSignature T"
    using assms(2) by simp_all
  note ne = ne0 ne0 [symmetric]
  show ?thesis
    unfolding Let_def
  proof (intro conjI impI)
    assume "last signature = InvalidSignature T \<or> last signature = IllegalSignature T"
    then show "isValidSignature T signature = Return False"
      unfolding d by simp
  next
    assume "last signature = EIP712Signature T \<or> last signature = EthSignSignature T"
    then show "isValidSignature T signature = Return (length signature = 66)"
      unfolding d by (elim disjE) (simp_all only: ne if_False if_True simp_thms)
  next
    assume "last signature = ValidatorSignature T"
    then show "isValidSignature T signature = Return (21 \<le> length signature)"
      unfolding d by (simp only: ne if_False if_True simp_thms)
  next
    assume "last signature = PreSignedSignature T \<or> last signature = WalletSignature T
        \<or> last signature = EIP1271WalletSignature T"
    then show "isValidSignature T signature = Return True"
      unfolding d by (elim disjE) (simp_all only: ne if_False if_True simp_thms)
  next
    assume "last signature \<notin> {IllegalSignature T, InvalidSignature T, EIP712Signature T,
                EthSignSignature T, WalletSignature T, ValidatorSignature T,
                PreSignedSignature T, EIP1271WalletSignature T}"
    then have "last signature \<noteq> IllegalSignature T" "last signature \<noteq> InvalidSignature T"
      "last signature \<noteq> EIP712Signature T" "last signature \<noteq> EthSignSignature T"
      "last signature \<noteq> WalletSignature T" "last signature \<noteq> ValidatorSignature T"
      "last signature \<noteq> PreSignedSignature T" "last signature \<noteq> EIP1271WalletSignature T"
      by simp_all
    then show "isValidSignature T signature = Return False"
      unfolding d by (simp only: if_False simp_thms)
  qed
qed



theorem isValidSignature_rules_witness:
  "distinct [IllegalSignature tags_0_to_7, InvalidSignature tags_0_to_7,
      EIP712Signature tags_0_to_7, EthSignSignature tags_0_to_7, WalletSignature tags_0_to_7,
      ValidatorSignature tags_0_to_7, PreSignedSignature tags_0_to_7,
      EIP1271WalletSignature tags_0_to_7]
   \<and> isValidSignature tags_0_to_7 [1] = Return False
   \<and> isValidSignature tags_0_to_7 (replicate 65 0 @ [2]) = Return True
   \<and> isValidSignature tags_0_to_7 (replicate 64 0 @ [3]) = Return False
   \<and> isValidSignature tags_0_to_7 (replicate 20 0 @ [5]) = Return True
   \<and> isValidSignature tags_0_to_7 (replicate 19 0 @ [5]) = Return False
   \<and> isValidSignature tags_0_to_7 [4] = Return True
   \<and> isValidSignature tags_0_to_7 [9] = Return False"
proof -
  have dist: "distinct [IllegalSignature tags_0_to_7, InvalidSignature tags_0_to_7,
      EIP712Signature tags_0_to_7, EthSignSignature tags_0_to_7, WalletSignature tags_0_to_7,
      ValidatorSignature tags_0_to_7, PreSignedSignature tags_0_to_7,
      EIP1271WalletSignature tags_0_to_7]"
    by (simp add: tags_0_to_7_def)
  have 1: "isValidSignature tags_0_to_7 [1] = Return False"
    using isValidSignature_rules [OF _ dist, of "[1]"] by (simp add: tags_0_to_7_def)
  have 2: "isValidSignature tags_0_to_7 (replicate 65 0 @ [2]) = Return True"
    using isValidSignature_rules [OF _ dist, of "replicate 65 0 @ [2]"]
    by (simp add: tags_0_to_7_def)
  have 3: "isValidSignature tags_0_to_7 (replicate 64 0 @ [3]) = Return False"
    using isValidSignature_rules [OF _ dist, of "replicate 64 0 @ [3]"]
    by (simp add: tags_0_to_7_def)
  have 4: "isValidSignature tags_0_to_7 (replicate 20 0 @ [5]) = Return True"
    using isValidSignature_rules [OF _ dist, of "replicate 20 0 @ [5]"]
    by (simp add: tags_0_to_7_def)
  have 5: "isValidSignature tags_0_to_7 (replicate 19 0 @ [5]) = Return False"
    using isValidSignature_rules [OF _ dist, of "replicate 19 0 @ [5]"]
    by (simp add: tags_0_to_7_def)
  have 6: "isValidSignature tags_0_to_7 [4] = Return True"
    using isValidSignature_rules [OF _ dist, of "[4]"] by (simp add: tags_0_to_7_def)
  have 7: "isValidSignature tags_0_to_7 [9] = Return False"
    using isValidSignature_rules [OF _ dist, of "[9]"] by (simp add: tags_0_to_7_def)
  show ?thesis by (simp only: dist 1 2 3 4 5 6 7 simp_thms)
qed

end
